theory Spec2Isabelle
  imports Main "HOL-Library.Sublist" "HOL-Library.Char_ord" "HOL-Library.List_Lexorder"
begin

section \<open>Python values and the library functions the tools use\<close>

text \<open>
  The module \<^verbatim>\<open>mymcp.py\<close> registers six tools and two prompts. Every tool is a function
  from its arguments to a \<^verbatim>\<open>str\<close>; it talks to the outside through \<^verbatim>\<open>requests.get\<close> and
  through \<^verbatim>\<open>yfinance.Ticker\<close>, and it catches every exception of its \<^verbatim>\<open>try\<close> block.

  An exception is modelled by the text \<^verbatim>\<open>str(e)\<close>, the only thing the handlers read.
  A Python \<^verbatim>\<open>float\<close> is modelled by its \<^verbatim>\<open>repr\<close>, the only thing the code reads of it
  (in an f-string or through \<^verbatim>\<open>json.dumps\<close>). A \<^verbatim>\<open>dict\<close> is an association list in
  insertion order; its keys are strings and pairwise distinct.
\<close>

type_synonym exn = string

datatype pyfloat = PyFloat (float_repr: string)

datatype pyobj =
    PNone
  | PBool bool
  | PInt int
  | PFloat pyfloat
  | PStr string
  | PList "pyobj list"
  | PDict "(string \<times> pyobj) list"

fun type_name :: "pyobj \<Rightarrow> string" where
  "type_name PNone = ''NoneType''"
| "type_name (PBool b) = ''bool''"
| "type_name (PInt i) = ''int''"
| "type_name (PFloat f) = ''float''"
| "type_name (PStr s) = ''str''"
| "type_name (PList xs) = ''list''"
| "type_name (PDict kvs) = ''dict''"

subsection \<open>\<^verbatim>\<open>str\<close> of an integer, \<^verbatim>\<open>str.join\<close>\<close>

definition digit_char :: "nat \<Rightarrow> char" where
  "digit_char n = char_of (48 + n)"

fun str_nat :: "nat \<Rightarrow> string" where
  "str_nat n = (if n < 10 then [digit_char n] else str_nat (n div 10) @ [digit_char (n mod 10)])"

declare str_nat.simps [simp del]

definition str_int :: "int \<Rightarrow> string" where
  "str_int i = (if i < 0 then ''-'' @ str_nat (nat (- i)) else str_nat (nat i))"

fun join :: "string \<Rightarrow> string list \<Rightarrow> string" where
  "join sep [] = []"
| "join sep [x] = x"
| "join sep (x # y # ys) = x @ sep @ join sep (y # ys)"

subsection \<open>Dictionary and container operations\<close>

text \<open>\<^verbatim>\<open>d.get(key, default)\<close> on a dictionary.\<close>

definition dict_get :: "(string \<times> pyobj) list \<Rightarrow> string \<Rightarrow> pyobj \<Rightarrow> pyobj" where
  "dict_get d k dflt = (case map_of d k of Some v \<Rightarrow> v | None \<Rightarrow> dflt)"

text \<open>
  \<^verbatim>\<open>o.get(key, default)\<close> on any decoded JSON value: only a dictionary has the method,
  every other value raises AttributeError.
\<close>

definition attr_get :: "pyobj \<Rightarrow> string \<Rightarrow> pyobj \<Rightarrow> exn + pyobj" where
  "attr_get obj k dflt =
     (case obj of
        PDict d \<Rightarrow> Inr (dict_get d k dflt)
      | _ \<Rightarrow> Inl ([CHR 0x27] @ type_name obj @ [CHR 0x27] @ '' object has no attribute '' @
                  [CHR 0x27] @ ''get'' @ [CHR 0x27]))"

text \<open>
  \<^verbatim>\<open>for x in o\<close>: a list yields its elements, a dictionary its keys, a string its
  characters; the other values raise TypeError.
\<close>

definition py_iter :: "pyobj \<Rightarrow> exn + pyobj list" where
  "py_iter obj =
     (case obj of
        PList xs \<Rightarrow> Inr xs
      | PDict d \<Rightarrow> Inr (map (\<lambda>kv. PStr (fst kv)) d)
      | PStr s \<Rightarrow> Inr (map (\<lambda>c. PStr [c]) s)
      | _ \<Rightarrow> Inl ([CHR 0x27] @ type_name obj @ [CHR 0x27] @ '' object is not iterable''))"

text \<open>
  \<^verbatim>\<open>key in o\<close> for a string \<^verbatim>\<open>key\<close>: key membership in a dictionary, element
  membership in a list, substring test in a string; the other values raise TypeError.
\<close>

definition py_contains :: "string \<Rightarrow> pyobj \<Rightarrow> exn + bool" where
  "py_contains k obj =
     (case obj of
        PDict d \<Rightarrow> Inr (map_of d k \<noteq> None)
      | PList xs \<Rightarrow> Inr (PStr k \<in> set xs)
      | PStr s \<Rightarrow> Inr (sublist k s)
      | _ \<Rightarrow> Inl (''argument of type '' @ [CHR 0x27] @ type_name obj @ [CHR 0x27] @
                  '' is not iterable''))"

subsection \<open>\<^verbatim>\<open>json.dumps(obj, indent=2)\<close>\<close>

text \<open>
  The serialiser of the standard library with its defaults (\<^verbatim>\<open>ensure_ascii=True\<close>) and
  \<^verbatim>\<open>indent=2\<close>: item separator \<^verbatim>\<open>","\<close>, key separator \<^verbatim>\<open>": "\<close>, one element per line.
  A character outside the printable ASCII range is written as an escape.
\<close>

definition hex_char :: "nat \<Rightarrow> char" where
  "hex_char n = ''0123456789abcdef'' ! n"

definition escape_char :: "char \<Rightarrow> string" where
  "escape_char c =
     (if c = CHR 0x22 then [CHR 0x5C, CHR 0x22]
      else if c = CHR 0x5C then [CHR 0x5C, CHR 0x5C]
      else if c = CHR 0x0A then [CHR 0x5C, CHR ''n'']
      else if c = CHR 0x0D then [CHR 0x5C, CHR ''r'']
      else if c = CHR 0x09 then [CHR 0x5C, CHR ''t'']
      else if c = CHR 0x08 then [CHR 0x5C, CHR ''b'']
      else if c = CHR 0x0C then [CHR 0x5C, CHR ''f'']
      else if 32 \<le> (of_char c :: nat) \<and> (of_char c :: nat) \<le> 126 then [c]
      else [CHR 0x5C, CHR ''u'', CHR ''0'', CHR ''0'',
            hex_char ((of_char c :: nat) div 16), hex_char ((of_char c :: nat) mod 16)])"

definition encode_str :: "string \<Rightarrow> string" where
  "encode_str s = [CHR 0x22] @ concat (map escape_char s) @ [CHR 0x22]"

definition floatstr :: "pyfloat \<Rightarrow> string" where
  "floatstr f =
     (if float_repr f = ''nan'' then ''NaN''
      else if float_repr f = ''inf'' then ''Infinity''
      else if float_repr f = ''-inf'' then ''-Infinity''
      else float_repr f)"

definition newline_indent :: "nat \<Rightarrow> string" where
  "newline_indent level = CHR 0x0A # replicate (2 * level) CHR '' ''"

fun iterencode :: "nat \<Rightarrow> pyobj \<Rightarrow> string" where
  "iterencode level PNone = ''null''"
| "iterencode level (PBool b) = (if b then ''true'' else ''false'')"
| "iterencode level (PInt i) = str_int i"
| "iterencode level (PFloat f) = floatstr f"
| "iterencode level (PStr s) = encode_str s"
| "iterencode level (PList xs) =
     (if xs = [] then ''[]''
      else ''['' @ newline_indent (Suc level) @
           join ('','' @ newline_indent (Suc level)) (map (\<lambda>x. iterencode (Suc level) x) xs) @
           newline_indent level @ '']'')"
| "iterencode level (PDict kvs) =
     (if kvs = [] then ''{}''
      else ''{'' @ newline_indent (Suc level) @
           join ('','' @ newline_indent (Suc level))
             (map (\<lambda>(k, v). encode_str k @ '': '' @ iterencode (Suc level) v) kvs) @
           newline_indent level @ ''}'')"

definition json_dumps :: "pyobj \<Rightarrow> string" where
  "json_dumps obj = iterencode 0 obj"

section \<open>The upstream services\<close>

text \<open>
  What \<^verbatim>\<open>requests.get\<close> returns: \<^verbatim>\<open>raise_for_status()\<close> either raises or does nothing,
  \<^verbatim>\<open>json()\<close> either raises or decodes the body.
\<close>

record response =
  raise_for_status :: "exn option"
  json :: "exn + pyobj"

text \<open>A \<^verbatim>\<open>pandas.Timestamp\<close> of the history index, read only through \<^verbatim>\<open>strftime\<close>.\<close>

record timestamp =
  year :: nat
  month :: nat
  day :: nat

type_synonym history = "(timestamp \<times> (string \<times> pyobj) list) list"

text \<open>
  The outside world of one invocation: the answer of \<^verbatim>\<open>requests.get(url, headers=...)\<close>,
  of \<^verbatim>\<open>yf.Ticker(symbol).info\<close> and of \<^verbatim>\<open>yf.Ticker(symbol).history(period=...)\<close>, each of
  which may raise. The rows of a history are the pairs \<^verbatim>\<open>iterrows()\<close> yields.
\<close>

record env =
  requests_get :: "string \<Rightarrow> (string \<times> string) list \<Rightarrow> exn + response"
  ticker_info :: "string \<Rightarrow> exn + (string \<times> pyobj) list"
  ticker_history :: "string \<Rightarrow> string \<Rightarrow> exn + history"

text \<open>Every upstream call an invocation issues is recorded, in order.\<close>

datatype call =
    HttpGet string "(string \<times> string) list"
  | TickerInfo string
  | TickerHistory string string

definition http_get :: "env \<Rightarrow> string \<Rightarrow> (string \<times> string) list \<Rightarrow> (exn + response) \<times> call list" where
  "http_get e url headers = (requests_get e url headers, [HttpGet url headers])"

definition yf_info :: "env \<Rightarrow> string \<Rightarrow> (exn + (string \<times> pyobj) list) \<times> call list" where
  "yf_info e symbol = (ticker_info e symbol, [TickerInfo symbol])"

definition yf_history :: "env \<Rightarrow> string \<Rightarrow> string \<Rightarrow> (exn + history) \<times> call list" where
  "yf_history e symbol period = (ticker_history e symbol period, [TickerHistory symbol period])"

text \<open>
  The three statements every HTTP tool runs on the response inside its \<^verbatim>\<open>try\<close>:
  \<^verbatim>\<open>response.raise_for_status()\<close>, then \<^verbatim>\<open>response.json()\<close>.
\<close>

definition decode_response :: "exn + response \<Rightarrow> exn + pyobj" where
  "decode_response r =
     (case r of
        Inl e \<Rightarrow> Inl e
      | Inr resp \<Rightarrow>
          (case raise_for_status resp of
             Some e \<Rightarrow> Inl e
           | None \<Rightarrow> json resp))"

section \<open>The weather tools\<close>

definition weather_url :: "pyfloat \<Rightarrow> pyfloat \<Rightarrow> string" where
  "weather_url latitude longitude =
     ''https://api.open-meteo.com/v1/forecast?latitude='' @ float_repr latitude @
     ''&longitude='' @ float_repr longitude @
     ''&current=temperature_2m,relative_humidity_2m,apparent_temperature,precipitation,'' @
     ''weather_code,wind_speed_10m,wind_direction_10m&timezone=auto''"

definition get_weather_try :: "env \<Rightarrow> pyfloat \<Rightarrow> pyfloat \<Rightarrow> (exn + string) \<times> call list" where
  "get_weather_try e latitude longitude =
     (let url = weather_url latitude longitude;
          (response, calls) = http_get e url []
      in (case decode_response response of
            Inl err \<Rightarrow> Inl err
          | Inr weather_data \<Rightarrow> Inr (json_dumps weather_data),
          calls))"

definition get_weather :: "env \<Rightarrow> pyfloat \<Rightarrow> pyfloat \<Rightarrow> string \<times> call list" where
  "get_weather e latitude longitude =
     (let (r, calls) = get_weather_try e latitude longitude
      in (case r of
            Inr s \<Rightarrow> s
          | Inl err \<Rightarrow> ''Error fetching weather data: '' @ err,
          calls))"

definition forecast_url :: "pyfloat \<Rightarrow> pyfloat \<Rightarrow> int \<Rightarrow> string" where
  "forecast_url latitude longitude days =
     ''https://api.open-meteo.com/v1/forecast?latitude='' @ float_repr latitude @
     ''&longitude='' @ float_repr longitude @
     ''&daily=weather_code,temperature_2m_max,temperature_2m_min,precipitation_sum,'' @
     ''precipitation_hours,wind_speed_10m_max&timezone=auto&forecast_days='' @ str_int days"

definition get_weather_forecast_try :: "env \<Rightarrow> string \<Rightarrow> (exn + string) \<times> call list" where
  "get_weather_forecast_try e url =
     (let (response, calls) = http_get e url []
      in (case decode_response response of
            Inl err \<Rightarrow> Inl err
          | Inr forecast_data \<Rightarrow> Inr (json_dumps forecast_data),
          calls))"

definition get_weather_forecast :: "env \<Rightarrow> pyfloat \<Rightarrow> pyfloat \<Rightarrow> int \<Rightarrow> string \<times> call list" where
  "get_weather_forecast e latitude longitude days0 =
     (let days = (if days0 > 16 then 16 else days0);
          url = forecast_url latitude longitude days;
          (r, calls) = get_weather_forecast_try e url
      in (case r of
            Inr s \<Rightarrow> s
          | Inl err \<Rightarrow> ''Error fetching weather forecast: '' @ err,
          calls))"

definition geocoding_url :: "string \<Rightarrow> string" where
  "geocoding_url location_name =
     ''https://geocoding-api.open-meteo.com/v1/search?name='' @ location_name @
     ''&count=10&language=en&format=json''"

definition get_location_coordinates_try :: "env \<Rightarrow> string \<Rightarrow> (exn + string) \<times> call list" where
  "get_location_coordinates_try e location_name =
     (let url = geocoding_url location_name;
          (response, calls) = http_get e url []
      in (case decode_response response of
            Inl err \<Rightarrow> Inl err
          | Inr location_data \<Rightarrow> Inr (json_dumps location_data),
          calls))"

definition get_location_coordinates :: "env \<Rightarrow> string \<Rightarrow> string \<times> call list" where
  "get_location_coordinates e location_name =
     (let (r, calls) = get_location_coordinates_try e location_name
      in (case r of
            Inr s \<Rightarrow> s
          | Inl err \<Rightarrow> ''Error fetching location data: '' @ err,
          calls))"

section \<open>The stock tools\<close>

text \<open>The dictionary \<^verbatim>\<open>data\<close> that \<^verbatim>\<open>get_stock_price\<close> builds from the provider's \<^verbatim>\<open>info\<close>.\<close>

definition stock_data :: "string \<Rightarrow> (string \<times> pyobj) list \<Rightarrow> (string \<times> pyobj) list" where
  "stock_data symbol info =
     [(''symbol'', PStr symbol),
      (''name'', dict_get info ''shortName'' (PStr ''N/A'')),
      (''price'', dict_get info ''currentPrice'' (dict_get info ''regularMarketPrice'' (PStr ''N/A''))),
      (''currency'', dict_get info ''currency'' (PStr ''USD'')),
      (''day_high'', dict_get info ''dayHigh'' (PStr ''N/A'')),
      (''day_low'', dict_get info ''dayLow'' (PStr ''N/A'')),
      (''52_week_high'', dict_get info ''fiftyTwoWeekHigh'' (PStr ''N/A'')),
      (''52_week_low'', dict_get info ''fiftyTwoWeekLow'' (PStr ''N/A'')),
      (''market_cap'', dict_get info ''marketCap'' (PStr ''N/A'')),
      (''volume'', dict_get info ''volume'' (PStr ''N/A'')),
      (''average_volume'', dict_get info ''averageVolume'' (PStr ''N/A'')),
      (''pe_ratio'', dict_get info ''trailingPE'' (PStr ''N/A'')),
      (''dividend_yield'', dict_get info ''dividendYield'' (PStr ''N/A''))]"

definition get_stock_price_try :: "env \<Rightarrow> string \<Rightarrow> (exn + string) \<times> call list" where
  "get_stock_price_try e symbol =
     (let (info, calls) = yf_info e symbol
      in (case info of
            Inl err \<Rightarrow> Inl err
          | Inr info \<Rightarrow> Inr (json_dumps (PDict (stock_data symbol info))),
          calls))"

definition get_stock_price :: "env \<Rightarrow> string \<Rightarrow> string \<times> call list" where
  "get_stock_price e symbol =
     (let (r, calls) = get_stock_price_try e symbol
      in (case r of
            Inr s \<Rightarrow> s
          | Inl err \<Rightarrow> ''Error fetching stock data for '' @ symbol @ '': '' @ err,
          calls))"

definition valid_periods :: "string list" where
  "valid_periods = [''1d'', ''5d'', ''1mo'', ''3mo'', ''6mo'', ''1y'', ''2y'', ''5y'', ''max'']"

text \<open>
  \<^verbatim>\<open>date.strftime('%Y-%m-%d')\<close>: the year in four digits (a Timestamp's year has four), month
  and day in two, zero-padded.
\<close>

definition zero_pad :: "nat \<Rightarrow> nat \<Rightarrow> string" where
  "zero_pad width n = replicate (width - length (str_nat n)) CHR ''0'' @ str_nat n"

definition strftime_ymd :: "timestamp \<Rightarrow> string" where
  "strftime_ymd d = zero_pad 4 (year d) @ ''-'' @ zero_pad 2 (month d) @ ''-'' @ zero_pad 2 (day d)"

text \<open>\<^verbatim>\<open>row[column]\<close>: a missing column raises KeyError, whose text is the quoted key.\<close>

definition row_get :: "(string \<times> pyobj) list \<Rightarrow> string \<Rightarrow> exn + pyobj" where
  "row_get row column =
     (case map_of row column of
        Some v \<Rightarrow> Inr v
      | None \<Rightarrow> Inl ([CHR 0x27] @ column @ [CHR 0x27]))"

definition history_point :: "timestamp \<Rightarrow> (string \<times> pyobj) list \<Rightarrow> exn + pyobj" where
  "history_point date row =
     (case row_get row ''Open'' of Inl err \<Rightarrow> Inl err | Inr op \<Rightarrow>
      (case row_get row ''High'' of Inl err \<Rightarrow> Inl err | Inr hi \<Rightarrow>
      (case row_get row ''Low'' of Inl err \<Rightarrow> Inl err | Inr lo \<Rightarrow>
      (case row_get row ''Close'' of Inl err \<Rightarrow> Inl err | Inr cl \<Rightarrow>
      (case row_get row ''Volume'' of Inl err \<Rightarrow> Inl err | Inr vol \<Rightarrow>
         Inr (PDict [(''date'', PStr (strftime_ymd date)),
                     (''open'', op), (''high'', hi), (''low'', lo), (''close'', cl),
                     (''volume'', vol)]))))))"

text \<open>The loop over \<^verbatim>\<open>history.iterrows()\<close>, appending to \<^verbatim>\<open>data\<close>.\<close>

fun history_loop :: "history \<Rightarrow> pyobj list \<Rightarrow> exn + pyobj list" where
  "history_loop [] data = Inr data"
| "history_loop ((date, row) # rest) data =
     (case history_point date row of
        Inl err \<Rightarrow> Inl err
      | Inr point \<Rightarrow> history_loop rest (data @ [point]))"

definition get_stock_history_try :: "env \<Rightarrow> string \<Rightarrow> string \<Rightarrow> (exn + string) \<times> call list" where
  "get_stock_history_try e symbol period =
     (let (hist, calls) = yf_history e symbol period
      in (case hist of
            Inl err \<Rightarrow> Inl err
          | Inr rows \<Rightarrow>
              (case history_loop rows [] of
                 Inl err \<Rightarrow> Inl err
               | Inr data \<Rightarrow> Inr (json_dumps (PList data))),
          calls))"

definition get_stock_history :: "env \<Rightarrow> string \<Rightarrow> string \<Rightarrow> string \<times> call list" where
  "get_stock_history e symbol period =
     (if period \<notin> set valid_periods
      then (''Invalid period: '' @ period @ ''. Valid options are: '' @ join '', '' valid_periods, [])
      else
        (let (r, calls) = get_stock_history_try e symbol period
         in (case r of
               Inr s \<Rightarrow> s
             | Inl err \<Rightarrow> ''Error fetching historical stock data for '' @ symbol @ '': '' @ err,
             calls)))"

definition search_url :: "string \<Rightarrow> string" where
  "search_url query =
     ''https://query2.finance.yahoo.com/v1/finance/search?q='' @ query @
     ''&quotesCount=10&newsCount=0''"

definition search_headers :: "(string \<times> string) list" where
  "search_headers =
     [(''User-Agent'',
       ''Mozilla/5.0 (Windows NT 10.0; Win64; x64) AppleWebKit/537.36 (KHTML, like Gecko) '' @
       ''Chrome/91.0.4472.124 Safari/537.36'')]"

text \<open>The dictionary appended for a quote that passed the test \<^verbatim>\<open>"symbol" in quote\<close>.\<close>

definition stock_match :: "pyobj \<Rightarrow> exn + pyobj" where
  "stock_match quote =
     (case attr_get quote ''symbol'' (PStr []) of Inl err \<Rightarrow> Inl err | Inr symb \<Rightarrow>
      (case attr_get quote ''shortname'' (PStr []) of Inl err \<Rightarrow> Inl err | Inr short \<Rightarrow>
      (case attr_get quote ''longname'' short of Inl err \<Rightarrow> Inl err | Inr name \<Rightarrow>
      (case attr_get quote ''exchange'' (PStr []) of Inl err \<Rightarrow> Inl err | Inr exchange \<Rightarrow>
      (case attr_get quote ''quoteType'' (PStr []) of Inl err \<Rightarrow> Inl err | Inr qtype \<Rightarrow>
         Inr (PDict [(''symbol'', symb), (''name'', name), (''exchange'', exchange),
                     (''type'', qtype)]))))))"

text \<open>The loop over \<^verbatim>\<open>quotes\<close>, appending to \<^verbatim>\<open>results\<close>.\<close>

fun search_loop :: "pyobj list \<Rightarrow> pyobj list \<Rightarrow> exn + pyobj list" where
  "search_loop [] results = Inr results"
| "search_loop (quote # rest) results =
     (case py_contains ''symbol'' quote of
        Inl err \<Rightarrow> Inl err
      | Inr has_symbol \<Rightarrow>
          (if has_symbol
           then (case stock_match quote of
                   Inl err \<Rightarrow> Inl err
                 | Inr entry \<Rightarrow> search_loop rest (results @ [entry]))
           else search_loop rest results))"

text \<open>
  \<^verbatim>\<open>quotes = search_results.get("quotes", [])\<close> and the sequence the \<^verbatim>\<open>for\<close> statement
  iterates over.
\<close>

definition quotes_of :: "pyobj \<Rightarrow> exn + pyobj list" where
  "quotes_of search_results =
     (case attr_get search_results ''quotes'' (PList []) of
        Inl err \<Rightarrow> Inl err
      | Inr quotes \<Rightarrow> py_iter quotes)"

text \<open>The statements of \<^verbatim>\<open>search_stocks\<close> after \<^verbatim>\<open>search_results = response.json()\<close>.\<close>

definition search_results_of :: "pyobj \<Rightarrow> exn + pyobj list" where
  "search_results_of search_results =
     (case quotes_of search_results of
        Inl err \<Rightarrow> Inl err
      | Inr quotes \<Rightarrow> search_loop quotes [])"

definition search_stocks_try :: "env \<Rightarrow> string \<Rightarrow> (exn + string) \<times> call list" where
  "search_stocks_try e query =
     (let url = search_url query;
          (response, calls) = http_get e url search_headers
      in (case decode_response response of
            Inl err \<Rightarrow> Inl err
          | Inr search_results \<Rightarrow>
              (case search_results_of search_results of
                 Inl err \<Rightarrow> Inl err
               | Inr results \<Rightarrow> Inr (json_dumps (PList results))),
          calls))"

definition search_stocks :: "env \<Rightarrow> string \<Rightarrow> string \<times> call list" where
  "search_stocks e query =
     (let (r, calls) = search_stocks_try e query
      in (case r of
            Inr s \<Rightarrow> s
          | Inl err \<Rightarrow> ''Error searching for stocks: '' @ err,
          calls))"

section \<open>The weather-report prompt\<close>

definition weather_report_text :: "string \<Rightarrow> string" where
  \<open>weather_report_text location =
     ''\<newline>'' @
     ''    Generate a detailed weather report for '' @
     location @
     ''.\<newline>'' @
     ''\<newline>'' @
     ''    First, I need to get the coordinates for this location. Only city name should be provided:\<newline>'' @
     ''    {{get_location_coordinates(location_name="'' @
     location @
     ''")}}\<newline>'' @
     ''\<newline>'' @
     ''    Using those coordinates, I'll fetch the current weather:\<newline>'' @
     ''    {{get_weather(latitude=LATITUDE, longitude=LONGITUDE)}}\<newline>'' @
     ''\<newline>'' @
     ''    And also get a 7-day forecast:\<newline>'' @
     ''    {{get_weather_forecast(latitude=LATITUDE, longitude=LONGITUDE, days=7)}}\<newline>'' @
     ''\<newline>'' @
     ''    Please provide a comprehensive weather report for '' @
     location @
     '' including:\<newline>'' @
     ''\<newline>'' @
     ''    1. Current conditions (temperature, humidity, wind, etc.)\<newline>'' @
     ''    2. Weather forecast for the next 7 days\<newline>'' @
     ''    3. Any notable weather patterns or extreme conditions to be aware of\<newline>'' @
     ''\<newline>'' @
     ''    Make the report informative but easy to understand.\<newline>'' @
     ''    The expected output is tabular.\<newline>'' @
     ''    ''\<close>

text \<open>
  The handler runs in the same world as the tools; it returns the rendered text and the
  upstream calls it issued.
\<close>

definition weather_report_prompt :: "env \<Rightarrow> string \<Rightarrow> string \<times> call list" where
  "weather_report_prompt e location = (weather_report_text location, [])"

section \<open>Sample worlds and the predicates of the properties\<close>

text \<open>A world in which every upstream call times out.\<close>

definition offline_env :: env where
  "offline_env =
     \<lparr>requests_get = (\<lambda>url headers. Inl ''timed out''),
      ticker_info = (\<lambda>symbol. Inl ''timed out''),
      ticker_history = (\<lambda>symbol period. Inl ''timed out'')\<rparr>"

text \<open>
  A world that answers every HTTP request with a good status and the JSON document
  \<open>payload\<close>, every \<^verbatim>\<open>info\<close> request with \<open>info\<close> and every history request with \<open>hist\<close>.
\<close>

definition canned_env :: "pyobj \<Rightarrow> (string \<times> pyobj) list \<Rightarrow> history \<Rightarrow> env" where
  "canned_env payload info hist =
     \<lparr>requests_get = (\<lambda>url headers. Inr \<lparr>raise_for_status = None, json = Inr payload\<rparr>),
      ticker_info = (\<lambda>symbol. Inr info),
      ticker_history = (\<lambda>symbol period. Inr hist)\<rparr>"

text \<open>
  The framing \<^verbatim>\<open>Error <verb> ... for <subject>: <error text>\<close>: the message starts with
  \<^verbatim>\<open>Error\<close> and ends with the subject and the error text.
\<close>

definition error_framing :: "string \<Rightarrow> string \<Rightarrow> string \<Rightarrow> bool" where
  "error_framing subject err msg \<longleftrightarrow>
     prefix ''Error '' msg \<and> suffix ('' for '' @ subject @ '': '' @ err) msg"

text \<open>A value is a dictionary that has the key.\<close>

definition has_key :: "string \<Rightarrow> pyobj \<Rightarrow> bool" where
  "has_key k obj = (case obj of PDict d \<Rightarrow> map_of d k \<noteq> None | _ \<Rightarrow> False)"

text \<open>The \<^verbatim>\<open>date\<close> of a history point.\<close>

definition date_field :: "pyobj \<Rightarrow> string" where
  "date_field obj =
     (case obj of
        PDict d \<Rightarrow> (case map_of d ''date'' of Some (PStr s) \<Rightarrow> s | _ \<Rightarrow> [])
      | _ \<Rightarrow> [])"

definition is_digit :: "char \<Rightarrow> bool" where
  "is_digit c \<longleftrightarrow> 48 \<le> (of_char c :: nat) \<and> (of_char c :: nat) \<le> 57"

text \<open>The shape \<^verbatim>\<open>YYYY-MM-DD\<close>.\<close>

definition is_ymd :: "string \<Rightarrow> bool" where
  "is_ymd s \<longleftrightarrow>
     length s = 10 \<and> s ! 4 = CHR ''-'' \<and> s ! 7 = CHR ''-'' \<and>
     list_all (\<lambda>i. is_digit (s ! i)) [0, 1, 2, 3, 5, 6, 8, 9]"

text \<open>A calendar date with a four-digit year, and the chronological order of dates.\<close>

definition valid_date :: "timestamp \<Rightarrow> bool" where
  "valid_date d \<longleftrightarrow>
     1000 \<le> year d \<and> year d \<le> 9999 \<and> 1 \<le> month d \<and> month d \<le> 12 \<and>
     1 \<le> day d \<and> day d \<le> 31"

definition date_less :: "timestamp \<Rightarrow> timestamp \<Rightarrow> bool" where
  "date_less a b \<longleftrightarrow>
     year a < year b \<or>
     (year a = year b \<and> (month a < month b \<or> (month a = month b \<and> day a < day b)))"

text \<open>A price row, and a history whose two rows come latest first.\<close>

definition sample_row :: "(string \<times> pyobj) list" where
  "sample_row =
     [(''Open'', PFloat (PyFloat ''187.15'')), (''High'', PFloat (PyFloat ''188.44'')),
      (''Low'', PFloat (PyFloat ''183.89'')), (''Close'', PFloat (PyFloat ''185.64'')),
      (''Volume'', PFloat (PyFloat ''82488700.0''))]"

definition descending_history :: history where
  "descending_history =
     [(\<lparr>year = 2024, month = 1, day = 3\<rparr>, sample_row),
      (\<lparr>year = 2024, month = 1, day = 2\<rparr>, sample_row)]"

definition ascending_history :: history where
  "ascending_history =
     [(\<lparr>year = 2024, month = 1, day = 2\<rparr>, sample_row),
      (\<lparr>year = 2024, month = 1, day = 3\<rparr>, sample_row)]"

text \<open>The history point of a \<open>sample_row\<close> on a given date.\<close>

definition sample_point :: "string \<Rightarrow> pyobj" where
  "sample_point date =
     PDict [(''date'', PStr date),
            (''open'', PFloat (PyFloat ''187.15'')), (''high'', PFloat (PyFloat ''188.44'')),
            (''low'', PFloat (PyFloat ''183.89'')), (''close'', PFloat (PyFloat ''185.64'')),
            (''volume'', PFloat (PyFloat ''82488700.0''))]"

text \<open>A number below 100 in two decimal digits.\<close>

definition two_digits :: "nat \<Rightarrow> string" where
  "two_digits n = [digit_char (n div 10), digit_char (n mod 10)]"

text \<open>A search document whose second quote has no symbol, and the matches it yields.\<close>

definition sample_search :: pyobj where
  "sample_search =
     PDict [(''quotes'',
       PList [PDict [(''symbol'', PStr ''AAPL''), (''shortname'', PStr ''Apple Inc.''),
                     (''exchange'', PStr ''NMS'')],
              PDict [(''shortname'', PStr ''Apple Hospitality''), (''quoteType'', PStr ''EQUITY'')],
              PDict [(''symbol'', PStr ''APLE''), (''longname'', PStr ''Apple Hospitality REIT, Inc.''),
                     (''shortname'', PStr ''Apple Hospitality''), (''quoteType'', PStr ''EQUITY'')]])]"

definition sample_matches :: "pyobj list" where
  "sample_matches =
     [PDict [(''symbol'', PStr ''AAPL''), (''name'', PStr ''Apple Inc.''),
             (''exchange'', PStr ''NMS''), (''type'', PStr [])],
      PDict [(''symbol'', PStr ''APLE''), (''name'', PStr ''Apple Hospitality REIT, Inc.''),
             (''exchange'', PStr []), (''type'', PStr ''EQUITY'')]]"

section \<open>Unfolding the tools\<close>

lemmas tool_defs =
  get_weather_def get_weather_try_def get_weather_forecast_def get_weather_forecast_try_def
  get_location_coordinates_def get_location_coordinates_try_def
  get_stock_price_def get_stock_price_try_def get_stock_history_def get_stock_history_try_def
  search_stocks_def search_stocks_try_def http_get_def yf_info_def yf_history_def

section \<open>The properties\<close>

subsection \<open>C1: the text of a failure\<close>

text \<open>
  Claim C1 says that every failure of every tool is a string with the framing
  \<^verbatim>\<open>Error <verb> ... for <subject>: \<close> followed by the error text. When the search request
  for \<^verbatim>\<open>Apple\<close> times out, \<^verbatim>\<open>search_stocks\<close> fails with a message that does not name
  the query.
\<close>

theorem search_stocks_failure_omits_query:
  "fst (search_stocks_try offline_env ''Apple'') = Inl ''timed out'' \<and>
   fst (search_stocks offline_env ''Apple'') = ''Error searching for stocks: timed out'' \<and>
   \<not> error_framing ''Apple'' ''timed out'' (fst (search_stocks offline_env ''Apple''))"
  by (simp add: tool_defs offline_env_def decode_response_def error_framing_def suffix_to_prefix)

text \<open>
  Claim C1, as the code has it: whenever the \<^verbatim>\<open>try\<close> block of a tool raises, the tool
  returns one string, a fixed phrase that starts with \<^verbatim>\<open>Error\<close> and ends with a colon and a
  space, followed by the error text. The phrase names the subject, as \<^verbatim>\<open>for <symbol>\<close>, in
  \<^verbatim>\<open>get_stock_price\<close> and \<^verbatim>\<open>get_stock_history\<close> only; the weather, geocoding and search
  tools name no subject.
\<close>

theorem tool_failure_text:
  "(fst (get_weather_try e la lo) = Inl err \<longrightarrow>
      fst (get_weather e la lo) = ''Error fetching weather data: '' @ err) \<and>
   (fst (get_weather_forecast_try e (forecast_url la lo (if days > 16 then 16 else days))) = Inl err \<longrightarrow>
      fst (get_weather_forecast e la lo days) = ''Error fetching weather forecast: '' @ err) \<and>
   (fst (get_location_coordinates_try e location_name) = Inl err \<longrightarrow>
      fst (get_location_coordinates e location_name) = ''Error fetching location data: '' @ err) \<and>
   (fst (get_stock_price_try e symbol) = Inl err \<longrightarrow>
      fst (get_stock_price e symbol) = ''Error fetching stock data for '' @ symbol @ '': '' @ err \<and>
      error_framing symbol err (fst (get_stock_price e symbol))) \<and>
   (period \<in> set valid_periods \<and> fst (get_stock_history_try e symbol period) = Inl err \<longrightarrow>
      fst (get_stock_history e symbol period) =
        ''Error fetching historical stock data for '' @ symbol @ '': '' @ err \<and>
      error_framing symbol err (fst (get_stock_history e symbol period))) \<and>
   (fst (search_stocks_try e query) = Inl err \<longrightarrow>
      fst (search_stocks e query) = ''Error searching for stocks: '' @ err)"
  by (simp add: get_weather_def get_weather_forecast_def get_location_coordinates_def
      get_stock_price_def get_stock_history_def search_stocks_def error_framing_def
      suffix_def split: prod.splits)


theorem tool_failure_text_witness:
  "fst (get_weather_try offline_env (PyFloat ''48.85'') (PyFloat ''2.35'')) = Inl ''timed out'' \<and>
   fst (get_weather offline_env (PyFloat ''48.85'') (PyFloat ''2.35'')) =
     ''Error fetching weather data: timed out'' \<and>
   fst (get_stock_price_try offline_env ''AAPL'') = Inl ''timed out'' \<and>
   fst (get_stock_price offline_env ''AAPL'') = ''Error fetching stock data for AAPL: timed out'' \<and>
   ''1mo'' \<in> set valid_periods \<and>
   fst (get_stock_history_try offline_env ''AAPL'' ''1mo'') = Inl ''timed out'' \<and>
   fst (get_stock_history offline_env ''AAPL'' ''1mo'') =
     ''Error fetching historical stock data for AAPL: timed out'' \<and>
   fst (search_stocks_try offline_env ''Apple'') = Inl ''timed out'' \<and>
   fst (search_stocks offline_env ''Apple'') = ''Error searching for stocks: timed out''"
proof -
  have w: "fst (get_weather_try offline_env (PyFloat ''48.85'') (PyFloat ''2.35'')) = Inl ''timed out''"
    by (simp add: get_weather_try_def http_get_def offline_env_def decode_response_def)
  have p: "fst (get_stock_price_try offline_env ''AAPL'') = Inl ''timed out''"
    by (simp add: get_stock_price_try_def yf_info_def offline_env_def)
  have v: "''1mo'' \<in> set valid_periods"
    by (simp add: valid_periods_def)
  have h: "fst (get_stock_history_try offline_env ''AAPL'' ''1mo'') = Inl ''timed out''"
    by (simp add: get_stock_history_try_def yf_history_def offline_env_def)
  have s: "fst (search_stocks_try offline_env ''Apple'') = Inl ''timed out''"
    by (simp add: search_stocks_try_def http_get_def offline_env_def decode_response_def)
  show ?thesis
    using tool_failure_text [of offline_env "PyFloat ''48.85''" "PyFloat ''2.35''" "''timed out''"
        0 "''Paris''" "''AAPL''" "''1mo''" "''Apple''"] w p v h s
    by simp
qed

lemma str_int_16: "str_int 16 = ''16''"
  by code_simp

lemma forecast_url_suffix: "suffix (''&forecast_days='' @ str_int d) (forecast_url la lo d)"
  by (simp add: forecast_url_def suffix_def)

lemma forecast_calls:
  "snd (get_weather_forecast e la lo days) =
     [HttpGet (forecast_url la lo (if days > 16 then 16 else days)) []]"
  by (simp add: get_weather_forecast_def get_weather_forecast_try_def http_get_def Let_def
      split: prod.splits)

subsection \<open>C2: the forecast horizon\<close>

text \<open>
  Claim C2: for every \<open>days\<close> above 16, \<^verbatim>\<open>get_weather_forecast\<close> issues its one upstream
  call with \<^verbatim>\<open>forecast_days=16\<close>; for \<open>days\<close> from 1 to 16 the value passed upstream is the
  input; and no lower bound is applied: a value below 1 is passed upstream as it is. The
  value is the last parameter of the request's URL.
\<close>

theorem get_weather_forecast_days:
  "(16 < days \<longrightarrow>
      snd (get_weather_forecast e la lo days) = [HttpGet (forecast_url la lo 16) []]) \<and>
   (1 \<le> days \<and> days \<le> 16 \<longrightarrow>
      snd (get_weather_forecast e la lo days) = [HttpGet (forecast_url la lo days) []]) \<and>
   (days < 1 \<longrightarrow>
      snd (get_weather_forecast e la lo days) = [HttpGet (forecast_url la lo days) []]) \<and>
   suffix (''&forecast_days='' @ str_int d) (forecast_url la lo d) \<and>
   suffix ''&forecast_days=16'' (forecast_url la lo 16)"
  using forecast_url_suffix [of d la lo] forecast_url_suffix [of 16 la lo]
  by (simp add: forecast_calls str_int_16)

theorem get_weather_forecast_days_witness:
  "(16::int) < 20 \<and>
   snd (get_weather_forecast offline_env (PyFloat ''48.85'') (PyFloat ''2.35'') 20) =
     [HttpGet (forecast_url (PyFloat ''48.85'') (PyFloat ''2.35'') 16) []] \<and>
   (1::int) \<le> 7 \<and> (7::int) \<le> 16 \<and>
   snd (get_weather_forecast offline_env (PyFloat ''48.85'') (PyFloat ''2.35'') 7) =
     [HttpGet (forecast_url (PyFloat ''48.85'') (PyFloat ''2.35'') 7) []] \<and>
   (- 3::int) < 1 \<and>
   snd (get_weather_forecast offline_env (PyFloat ''48.85'') (PyFloat ''2.35'') (- 3)) =
     [HttpGet (forecast_url (PyFloat ''48.85'') (PyFloat ''2.35'') (- 3)) []] \<and>
   forecast_url (PyFloat ''48.85'') (PyFloat ''2.35'') (- 3) =
     ''https://api.open-meteo.com/v1/forecast?latitude=48.85&longitude=2.35'' @
     ''&daily=weather_code,temperature_2m_max,temperature_2m_min,precipitation_sum,'' @
     ''precipitation_hours,wind_speed_10m_max&timezone=auto&forecast_days=-3''"
proof -
  have u: "forecast_url (PyFloat ''48.85'') (PyFloat ''2.35'') (- 3) =
     ''https://api.open-meteo.com/v1/forecast?latitude=48.85&longitude=2.35'' @
     ''&daily=weather_code,temperature_2m_max,temperature_2m_min,precipitation_sum,'' @
     ''precipitation_hours,wind_speed_10m_max&timezone=auto&forecast_days=-3''"
    by code_simp
  show ?thesis
    using get_weather_forecast_days [of 20 offline_env "PyFloat ''48.85''" "PyFloat ''2.35''" 0]
      get_weather_forecast_days [of 7 offline_env "PyFloat ''48.85''" "PyFloat ''2.35''" 0]
      get_weather_forecast_days [of "- 3" offline_env "PyFloat ''48.85''" "PyFloat ''2.35''" 0] u
    by simp
qed

subsection \<open>C3: the period is validated before any call\<close>

text \<open>
  Claim C3: for every period outside the nine valid ones, \<^verbatim>\<open>get_stock_history\<close> returns a
  message that names the period and lists the valid options, and issues no upstream call.
  The message does not start with \<^verbatim>\<open>Error\<close>, which every provider failure of the tool
  does, so the two are told apart.
\<close>

theorem get_stock_history_invalid_period:
  "period \<notin> {''1d'', ''5d'', ''1mo'', ''3mo'', ''6mo'', ''1y'', ''2y'', ''5y'', ''max''} \<Longrightarrow>
   get_stock_history e symbol period =
     (''Invalid period: '' @ period @
      ''. Valid options are: 1d, 5d, 1mo, 3mo, 6mo, 1y, 2y, 5y, max'', []) \<and>
   \<not> prefix ''Error'' (fst (get_stock_history e symbol period)) \<and>
   (\<forall>e' symbol' period' err.
      period' \<in> set valid_periods \<and> fst (get_stock_history_try e' symbol' period') = Inl err \<longrightarrow>
      prefix ''Error'' (fst (get_stock_history e' symbol' period')))"
  by (auto simp add: get_stock_history_def valid_periods_def split: prod.splits)

theorem get_stock_history_invalid_period_witness:
  "''7d'' \<notin> {''1d'', ''5d'', ''1mo'', ''3mo'', ''6mo'', ''1y'', ''2y'', ''5y'', ''max''} \<and>
   get_stock_history offline_env ''AAPL'' ''7d'' =
     (''Invalid period: 7d. Valid options are: 1d, 5d, 1mo, 3mo, 6mo, 1y, 2y, 5y, max'', [])"
proof -
  have h: "''7d'' \<notin> {''1d'', ''5d'', ''1mo'', ''3mo'', ''6mo'', ''1y'', ''2y'', ''5y'', ''max''}"
    by simp
  show ?thesis
    using get_stock_history_invalid_period [OF h, of offline_env "''AAPL''"] h by simp
qed

lemma get_stock_price_success:
  "ticker_info e symbol = Inr info \<Longrightarrow>
   get_stock_price_try e symbol = (Inr (json_dumps (PDict (stock_data symbol info))), [TickerInfo symbol]) \<and>
   get_stock_price e symbol = (json_dumps (PDict (stock_data symbol info)), [TickerInfo symbol])"
  by (simp add: get_stock_price_def get_stock_price_try_def yf_info_def)

lemma Some_dict_get:
  "(case map_of d k of Some v \<Rightarrow> Some v | None \<Rightarrow> Some dflt) = Some (dict_get d k dflt)"
  by (simp add: dict_get_def split: option.splits)

lemma stock_data_lookup:
  "map_of (stock_data symbol info) ''name'' = Some (dict_get info ''shortName'' (PStr ''N/A''))"
  "map_of (stock_data symbol info) ''currency'' = Some (dict_get info ''currency'' (PStr ''USD''))"
  "map_of (stock_data symbol info) ''day_high'' = Some (dict_get info ''dayHigh'' (PStr ''N/A''))"
  "map_of (stock_data symbol info) ''day_low'' = Some (dict_get info ''dayLow'' (PStr ''N/A''))"
  "map_of (stock_data symbol info) ''52_week_high'' =
     Some (dict_get info ''fiftyTwoWeekHigh'' (PStr ''N/A''))"
  "map_of (stock_data symbol info) ''52_week_low'' =
     Some (dict_get info ''fiftyTwoWeekLow'' (PStr ''N/A''))"
  "map_of (stock_data symbol info) ''market_cap'' = Some (dict_get info ''marketCap'' (PStr ''N/A''))"
  "map_of (stock_data symbol info) ''volume'' = Some (dict_get info ''volume'' (PStr ''N/A''))"
  "map_of (stock_data symbol info) ''average_volume'' =
     Some (dict_get info ''averageVolume'' (PStr ''N/A''))"
  "map_of (stock_data symbol info) ''pe_ratio'' = Some (dict_get info ''trailingPE'' (PStr ''N/A''))"
  "map_of (stock_data symbol info) ''dividend_yield'' =
     Some (dict_get info ''dividendYield'' (PStr ''N/A''))"
  by (simp_all add: stock_data_def)

subsection \<open>C4: the fields of a quote fall back\<close>

text \<open>
  Claim C4 lists the currency among the fields that fall back to the sentinel
  \<^verbatim>\<open>N/A\<close>. For a provider \<^verbatim>\<open>info\<close> without any field, the currency of the quote is
  \<^verbatim>\<open>USD\<close>.
\<close>

theorem stock_price_currency_default:
  "fst (get_stock_price (canned_env PNone [] []) ''AAPL'') =
     json_dumps (PDict (stock_data ''AAPL'' [])) \<and>
   map_of [] ''currency'' = (None :: pyobj option) \<and>
   map_of (stock_data ''AAPL'' []) ''currency'' = Some (PStr ''USD'') \<and>
   map_of (stock_data ''AAPL'' []) ''currency'' \<noteq> Some (PStr ''N/A'')"
  by (simp add: get_stock_price_def get_stock_price_try_def yf_info_def canned_env_def
      stock_data_def dict_get_def)

text \<open>
  Claim C4, as the code has it: for every provider \<^verbatim>\<open>info\<close> the operation succeeds, and
  name, day high and low, 52-week high and low, market cap, volume, average volume, P/E
  ratio and dividend yield are the provider's field when it is there and \<^verbatim>\<open>N/A\<close> when it
  is missing; the currency is the provider's field when it is there and \<^verbatim>\<open>USD\<close> when it
  is missing.
\<close>

theorem stock_price_fallbacks:
  "ticker_info e symbol = Inr info \<Longrightarrow>
   fst (get_stock_price_try e symbol) = Inr (json_dumps (PDict (stock_data symbol info))) \<and>
   fst (get_stock_price e symbol) = json_dumps (PDict (stock_data symbol info)) \<and>
   (\<forall>(field, source) \<in> set [(''name'', ''shortName''), (''day_high'', ''dayHigh''),
        (''day_low'', ''dayLow''), (''52_week_high'', ''fiftyTwoWeekHigh''),
        (''52_week_low'', ''fiftyTwoWeekLow''), (''market_cap'', ''marketCap''),
        (''volume'', ''volume''), (''average_volume'', ''averageVolume''),
        (''pe_ratio'', ''trailingPE''), (''dividend_yield'', ''dividendYield'')].
      map_of (stock_data symbol info) field =
        (case map_of info source of Some v \<Rightarrow> Some v | None \<Rightarrow> Some (PStr ''N/A''))) \<and>
   map_of (stock_data symbol info) ''currency'' =
     (case map_of info ''currency'' of Some v \<Rightarrow> Some v | None \<Rightarrow> Some (PStr ''USD''))"
  by (simp add: get_stock_price_success stock_data_lookup Some_dict_get)

theorem stock_price_fallbacks_witness:
  "ticker_info (canned_env PNone [(''shortName'', PStr ''Apple Inc.'')] []) ''AAPL'' =
     Inr [(''shortName'', PStr ''Apple Inc.'')] \<and>
   map_of (stock_data ''AAPL'' [(''shortName'', PStr ''Apple Inc.'')]) ''name'' =
     Some (PStr ''Apple Inc.'') \<and>
   map_of (stock_data ''AAPL'' [(''shortName'', PStr ''Apple Inc.'')]) ''day_high'' =
     Some (PStr ''N/A'') \<and>
   map_of (stock_data ''AAPL'' [(''shortName'', PStr ''Apple Inc.'')]) ''currency'' =
     Some (PStr ''USD'')"
proof -
  have h: "ticker_info (canned_env PNone [(''shortName'', PStr ''Apple Inc.'')] []) ''AAPL'' =
     Inr [(''shortName'', PStr ''Apple Inc.'')]"
    by (simp add: canned_env_def)
  show ?thesis
    using stock_price_fallbacks [OF h] h by simp
qed

subsection \<open>C5: the price falls back to the regular market price\<close>

text \<open>
  Claim C5: when the provider's \<^verbatim>\<open>info\<close> has no \<^verbatim>\<open>currentPrice\<close> but has a
  \<^verbatim>\<open>regularMarketPrice\<close>, the price of the quote is the latter; when \<^verbatim>\<open>currentPrice\<close> is
  there, it is the price.
\<close>

theorem stock_price_price_fallback:
  "ticker_info e symbol = Inr info \<Longrightarrow>
   fst (get_stock_price e symbol) = json_dumps (PDict (stock_data symbol info)) \<and>
   (map_of info ''currentPrice'' = None \<and> map_of info ''regularMarketPrice'' = Some p \<longrightarrow>
      map_of (stock_data symbol info) ''price'' = Some p) \<and>
   (map_of info ''currentPrice'' = Some c \<longrightarrow>
      map_of (stock_data symbol info) ''price'' = Some c)"
  by (simp add: get_stock_price_success stock_data_def dict_get_def)

theorem stock_price_price_fallback_witness:
  "ticker_info (canned_env PNone [(''regularMarketPrice'', PFloat (PyFloat ''185.64''))] []) ''AAPL'' =
     Inr [(''regularMarketPrice'', PFloat (PyFloat ''185.64''))] \<and>
   map_of [(''regularMarketPrice'', PFloat (PyFloat ''185.64''))] ''currentPrice'' = None \<and>
   map_of [(''regularMarketPrice'', PFloat (PyFloat ''185.64''))] ''regularMarketPrice'' =
     Some (PFloat (PyFloat ''185.64'')) \<and>
   map_of (stock_data ''AAPL'' [(''regularMarketPrice'', PFloat (PyFloat ''185.64''))]) ''price'' =
     Some (PFloat (PyFloat ''185.64'')) \<and>
   ticker_info (canned_env PNone [(''currentPrice'', PInt 190), (''regularMarketPrice'', PInt 185)] [])
     ''AAPL'' = Inr [(''currentPrice'', PInt 190), (''regularMarketPrice'', PInt 185)] \<and>
   map_of [(''currentPrice'', PInt 190), (''regularMarketPrice'', PInt 185)] ''currentPrice'' =
     Some (PInt 190) \<and>
   map_of (stock_data ''AAPL'' [(''currentPrice'', PInt 190), (''regularMarketPrice'', PInt 185)])
     ''price'' = Some (PInt 190)"
proof -
  have h1: "ticker_info (canned_env PNone [(''regularMarketPrice'', PFloat (PyFloat ''185.64''))] [])
      ''AAPL'' = Inr [(''regularMarketPrice'', PFloat (PyFloat ''185.64''))]"
    by (simp add: canned_env_def)
  have h2: "ticker_info
      (canned_env PNone [(''currentPrice'', PInt 190), (''regularMarketPrice'', PInt 185)] [])
      ''AAPL'' = Inr [(''currentPrice'', PInt 190), (''regularMarketPrice'', PInt 185)]"
    by (simp add: canned_env_def)
  show ?thesis
    using stock_price_price_fallback [OF h1, of "PFloat (PyFloat ''185.64'')" PNone]
      stock_price_price_fallback [OF h2, of PNone "PInt 190"] h1 h2
    by simp
qed

subsection \<open>C10: the symbol of a quote is the caller's\<close>

text \<open>
  Claim C10: a successful \<^verbatim>\<open>get_stock_price\<close> returns the serialised quote whose
  \<^verbatim>\<open>symbol\<close> is the input symbol, whatever the provider's \<^verbatim>\<open>info\<close> holds.
\<close>

theorem stock_price_symbol_echo:
  "fst (get_stock_price_try e symbol) = Inr out \<Longrightarrow>
   fst (get_stock_price e symbol) = out \<and>
   (\<exists>info. ticker_info e symbol = Inr info \<and>
      out = json_dumps (PDict (stock_data symbol info)) \<and>
      map_of (stock_data symbol info) ''symbol'' = Some (PStr symbol))"
  by (auto simp add: get_stock_price_def get_stock_price_try_def yf_info_def stock_data_def
      split: sum.splits)

theorem stock_price_symbol_echo_witness:
  "fst (get_stock_price_try (canned_env PNone [(''symbol'', PStr ''ZZZ'')] []) ''aapl'') =
     Inr (json_dumps (PDict (stock_data ''aapl'' [(''symbol'', PStr ''ZZZ'')]))) \<and>
   fst (get_stock_price (canned_env PNone [(''symbol'', PStr ''ZZZ'')] []) ''aapl'') =
     json_dumps (PDict (stock_data ''aapl'' [(''symbol'', PStr ''ZZZ'')])) \<and>
   map_of (stock_data ''aapl'' [(''symbol'', PStr ''ZZZ'')]) ''symbol'' = Some (PStr ''aapl'')"
proof -
  have h: "fst (get_stock_price_try (canned_env PNone [(''symbol'', PStr ''ZZZ'')] []) ''aapl'') =
     Inr (json_dumps (PDict (stock_data ''aapl'' [(''symbol'', PStr ''ZZZ'')])))"
    by (simp add: get_stock_price_try_def yf_info_def canned_env_def)
  show ?thesis
    using stock_price_symbol_echo [OF h] h by (simp add: stock_data_def)
qed

lemma sublist_in_context:
  assumes "sublist x y"
  shows "sublist x (p @ y @ s)"
proof -
  from assms obtain a b where "y = a @ x @ b"
    by (auto simp: sublist_def)
  then have "p @ y @ s = (p @ a) @ x @ (b @ s)"
    by simp
  then show ?thesis
    unfolding sublist_def by blast
qed

lemma sublist_join: "x \<in> set xs \<Longrightarrow> sublist x (join sep xs)"
proof (induction sep xs rule: join.induct)
  case (1 sep)
  then show ?case by simp
next
  case (2 sep y)
  then show ?case by simp
next
  case (3 sep y z zs)
  show ?case
  proof (cases "x = y")
    case True
    then show ?thesis by (simp add: sublist_append_rightI)
  next
    case False
    with 3 have "sublist x (join sep (z # zs))" by simp
    then have "sublist x ((y @ sep) @ join sep (z # zs) @ [])" by (rule sublist_in_context)
    then show ?thesis by simp
  qed
qed

lemma iterencode_dict_item:
  assumes "(k, v) \<in> set kvs"
  shows "sublist (encode_str k @ '': '' @ iterencode (Suc level) v) (iterencode level (PDict kvs))"
proof -
  let ?items = "map (\<lambda>(k, v). encode_str k @ '': '' @ iterencode (Suc level) v) kvs"
  let ?j = "join ('','' @ newline_indent (Suc level)) ?items"
  from assms have "encode_str k @ '': '' @ iterencode (Suc level) v \<in> set ?items"
    by force
  then have "sublist (encode_str k @ '': '' @ iterencode (Suc level) v) ?j"
    by (rule sublist_join)
  then have "sublist (encode_str k @ '': '' @ iterencode (Suc level) v)
      ((''{'' @ newline_indent (Suc level)) @ ?j @ (newline_indent level @ ''}''))"
    by (rule sublist_in_context)
  moreover from assms have "kvs \<noteq> []" by auto
  ultimately show ?thesis by simp
qed

lemma json_dumps_dict_not_error: "\<not> prefix ''Error'' (json_dumps (PDict d))"
  by (simp add: json_dumps_def)

lemma json_dumps_list_not_error: "\<not> prefix ''Error'' (json_dumps (PList xs))"
  by (simp add: json_dumps_def)

lemma encode_results: \<open>encode_str ''results'' = ''"results"''\<close>
  by (simp add: encode_str_def escape_char_def)

subsection \<open>C7: zero geocoding matches are a success\<close>

text \<open>
  Claim C7: when the geocoding request gets a response with a good status that decodes
  to a document whose \<^verbatim>\<open>results\<close> are the empty list, \<^verbatim>\<open>get_location_coordinates\<close>
  returns the serialised document, empty list included, and not a failure message.
\<close>

theorem geocoding_zero_matches:
  assumes "requests_get e (geocoding_url location_name) [] = Inr resp"
    and "raise_for_status resp = None"
    and "json resp = Inr (PDict d)"
    and "map_of d ''results'' = Some (PList [])"
  shows \<open>get_location_coordinates_try e location_name =
           (Inr (json_dumps (PDict d)), [HttpGet (geocoding_url location_name) []]) \<and>
         fst (get_location_coordinates e location_name) = json_dumps (PDict d) \<and>
         sublist ''"results": []'' (fst (get_location_coordinates e location_name)) \<and>
         \<not> prefix ''Error'' (fst (get_location_coordinates e location_name))\<close>
proof -
  have t: "get_location_coordinates_try e location_name =
      (Inr (json_dumps (PDict d)), [HttpGet (geocoding_url location_name) []])"
    using assms(1-3)
    by (simp add: get_location_coordinates_try_def http_get_def decode_response_def)
  then have out: "fst (get_location_coordinates e location_name) = json_dumps (PDict d)"
    by (simp add: get_location_coordinates_def)
  from assms(4) have "(''results'', PList []) \<in> set d"
    by (rule map_of_SomeD)
  then have "sublist (encode_str ''results'' @ '': '' @ iterencode (Suc 0) (PList []))
      (iterencode 0 (PDict d))"
    by (rule iterencode_dict_item)
  then have \<open>sublist ''"results": []'' (json_dumps (PDict d))\<close>
    by (simp add: encode_results json_dumps_def)
  with t out show ?thesis
    by (simp add: json_dumps_dict_not_error)
qed

theorem geocoding_zero_matches_witness:
  \<open>requests_get (canned_env (PDict [(''results'', PList [])]) [] []) (geocoding_url ''Atlantis'') [] =
     Inr \<lparr>raise_for_status = None, json = Inr (PDict [(''results'', PList [])])\<rparr> \<and>
   map_of [(''results'', PList [])] ''results'' = Some (PList []) \<and>
   fst (get_location_coordinates (canned_env (PDict [(''results'', PList [])]) [] []) ''Atlantis'') =
     ''{\<newline>  "results": []\<newline>}''\<close>
proof -
  have h: "requests_get (canned_env (PDict [(''results'', PList [])]) [] [])
      (geocoding_url ''Atlantis'') [] =
     Inr \<lparr>raise_for_status = None, json = Inr (PDict [(''results'', PList [])])\<rparr>"
    by (simp add: canned_env_def)
  have d: \<open>json_dumps (PDict [(''results'', PList [])]) = ''{\<newline>  "results": []\<newline>}''\<close>
    by code_simp
  show ?thesis
    using geocoding_zero_matches [OF h, of "[(''results'', PList [])]"] h d
    by simp
qed

lemma stock_match_dict:
  "stock_match (PDict q) =
     Inr (PDict [(''symbol'', dict_get q ''symbol'' (PStr [])),
                 (''name'', dict_get q ''longname'' (dict_get q ''shortname'' (PStr []))),
                 (''exchange'', dict_get q ''exchange'' (PStr [])),
                 (''type'', dict_get q ''quoteType'' (PStr []))])"
  by (simp add: stock_match_def attr_get_def)

lemma stock_match_Inr_dict: "stock_match quote = Inr entry \<Longrightarrow> \<exists>q. quote = PDict q"
  by (cases quote) (simp_all add: stock_match_def attr_get_def)

lemma py_contains_symbol_kept:
  "py_contains ''symbol'' quote = Inr True \<Longrightarrow> stock_match quote = Inr entry \<Longrightarrow>
   has_key ''symbol'' quote"
  by (cases quote) (simp_all add: stock_match_def attr_get_def py_contains_def has_key_def)

lemma py_contains_symbol_dropped:
  "py_contains ''symbol'' quote = Inr False \<Longrightarrow> \<not> has_key ''symbol'' quote"
  by (cases quote) (simp_all add: py_contains_def has_key_def)

lemma search_loop_results:
  "search_loop quotes acc = Inr results \<Longrightarrow>
   map Inr results = map Inr acc @ map stock_match (filter (has_key ''symbol'') quotes)"
proof (induction quotes arbitrary: acc)
  case Nil
  then show ?case by simp
next
  case (Cons quote rest)
  from Cons.prems obtain b where b: "py_contains ''symbol'' quote = Inr b"
    by (auto split: sum.splits)
  show ?case
  proof (cases b)
    case True
    with Cons.prems b obtain entry where e: "stock_match quote = Inr entry"
      and r: "search_loop rest (acc @ [entry]) = Inr results"
      by (auto split: sum.splits)
    from b True e have "has_key ''symbol'' quote"
      by (simp add: py_contains_symbol_kept)
    with Cons.IH [OF r] e show ?thesis by simp
  next
    case False
    with Cons.prems b have r: "search_loop rest acc = Inr results"
      by simp
    from b False have "\<not> has_key ''symbol'' quote"
      by (simp add: py_contains_symbol_dropped)
    with Cons.IH [OF r] show ?thesis by simp
  qed
qed

lemma kept_entry_symbol:
  assumes "has_key ''symbol'' quote" and "stock_match quote = Inr entry"
  shows "\<exists>q v d. quote = PDict q \<and> map_of q ''symbol'' = Some v \<and> entry = PDict d \<and>
           map_of d ''symbol'' = Some v"
proof -
  from assms(1) obtain q v where q: "quote = PDict q" and v: "map_of q ''symbol'' = Some v"
    by (cases quote) (auto simp: has_key_def)
  with assms(2) show ?thesis
    by (auto simp: stock_match_dict dict_get_def)
qed

subsection \<open>C6: search results carry a symbol\<close>

text \<open>
  Claim C6: whenever \<^verbatim>\<open>search_stocks\<close> succeeds, its output is the serialised list of
  the entries built from the upstream quotes that have a \<^verbatim>\<open>symbol\<close>, in order; every
  other quote is dropped, and every entry of the output has the symbol of its quote.
\<close>

theorem search_stocks_keeps_symbol_entries:
  assumes "fst (search_stocks_try e query) = Inr out"
  shows "fst (search_stocks e query) = out \<and>
    (\<exists>payload quotes results.
       decode_response (requests_get e (search_url query) search_headers) = Inr payload \<and>
       quotes_of payload = Inr quotes \<and>
       out = json_dumps (PList results) \<and>
       map stock_match (filter (has_key ''symbol'') quotes) = map Inr results \<and>
       (\<forall>entry \<in> set results. \<exists>q v d.
          PDict q \<in> set quotes \<and> map_of q ''symbol'' = Some v \<and>
          entry = PDict d \<and> map_of d ''symbol'' = Some v))"
proof -
  from assms obtain payload quotes results
    where p: "decode_response (requests_get e (search_url query) search_headers) = Inr payload"
      and q: "quotes_of payload = Inr quotes"
      and l: "search_loop quotes [] = Inr results"
      and o: "out = json_dumps (PList results)"
    by (auto simp: search_stocks_try_def http_get_def search_results_of_def Let_def split: sum.splits)
  from l have m: "map stock_match (filter (has_key ''symbol'') quotes) = map Inr results"
    using search_loop_results [of quotes "[]" results] by simp
  have "\<exists>q v d. PDict q \<in> set quotes \<and> map_of q ''symbol'' = Some v \<and>
          entry = PDict d \<and> map_of d ''symbol'' = Some v"
    if "entry \<in> set results" for entry
  proof -
    from that have "Inr entry \<in> set (map stock_match (filter (has_key ''symbol'') quotes))"
      by (simp add: m)
    then obtain quote where "quote \<in> set quotes" and "has_key ''symbol'' quote"
      and "stock_match quote = Inr entry"
      by auto
    then show ?thesis
      using kept_entry_symbol [of quote entry] by auto
  qed
  with p q o m have "\<exists>payload quotes results.
       decode_response (requests_get e (search_url query) search_headers) = Inr payload \<and>
       quotes_of payload = Inr quotes \<and>
       out = json_dumps (PList results) \<and>
       map stock_match (filter (has_key ''symbol'') quotes) = map Inr results \<and>
       (\<forall>entry \<in> set results. \<exists>q v d.
          PDict q \<in> set quotes \<and> map_of q ''symbol'' = Some v \<and>
          entry = PDict d \<and> map_of d ''symbol'' = Some v)"
    by blast
  moreover from assms have "fst (search_stocks e query) = out"
    by (auto simp add: search_stocks_def split: prod.splits)
  ultimately show ?thesis by simp
qed

theorem search_stocks_keeps_symbol_entries_witness:
  "fst (search_stocks_try (canned_env sample_search [] []) ''Apple'') =
     Inr (json_dumps (PList sample_matches)) \<and>
   fst (search_stocks (canned_env sample_search [] []) ''Apple'') =
     json_dumps (PList sample_matches)"
proof -
  have q: "search_results_of sample_search = Inr sample_matches"
    by (simp add: search_results_of_def quotes_of_def sample_search_def sample_matches_def
        attr_get_def dict_get_def py_iter_def py_contains_def stock_match_def)
  have h: "fst (search_stocks_try (canned_env sample_search [] []) ''Apple'') =
     Inr (json_dumps (PList sample_matches))"
    by (simp add: search_stocks_try_def http_get_def canned_env_def decode_response_def q)
  show ?thesis
    using search_stocks_keeps_symbol_entries [OF h] h by simp
qed

lemma paris_call:
  \<open>sublist ''get_location_coordinates(location_name="Paris")'' (weather_report_text ''Paris'')\<close>
  by code_simp

lemma paris_tabular:
  \<open>sublist ''The expected output is tabular.'' (weather_report_text ''Paris'')\<close>
  by code_simp

subsection \<open>C9: the weather-report prompt\<close>

text \<open>
  Claim C9: the text rendered for \<^verbatim>\<open>Paris\<close> contains
  \<^verbatim>\<open>get_location_coordinates(location_name="Paris")\<close> and the sentence that the expected output
  is tabular; the rendering issues no upstream call and is the same in every world, a
  function of the location alone.
\<close>

theorem weather_report_prompt_paris:
  \<open>sublist ''get_location_coordinates(location_name="Paris")''
     (fst (weather_report_prompt e ''Paris'')) \<and>
   sublist ''The expected output is tabular.'' (fst (weather_report_prompt e ''Paris'')) \<and>
   snd (weather_report_prompt e location) = [] \<and>
   weather_report_prompt e location = weather_report_prompt e' location\<close>
  by (simp add: weather_report_prompt_def paris_call paris_tabular)

lemma history_loop_points:
  "history_loop rows acc = Inr points \<Longrightarrow>
   map Inr points = map Inr acc @ map (\<lambda>(date, row). history_point date row) rows"
proof (induction rows arbitrary: acc)
  case Nil
  then show ?case by simp
next
  case (Cons r rest)
  obtain date row where r: "r = (date, row)" by (cases r)
  with Cons.prems obtain point where p: "history_point date row = Inr point"
    and l: "history_loop rest (acc @ [point]) = Inr points"
    by (auto split: sum.splits)
  from Cons.IH [OF l] p r show ?case by simp
qed

lemma history_point_date:
  "history_point date row = Inr point \<Longrightarrow> date_field point = strftime_ymd date"
  by (auto simp: history_point_def date_field_def split: sum.splits)

lemma history_points_dates:
  assumes "map Inr points = map (\<lambda>(date, row). history_point date row) rows"
  shows "map date_field points = map (\<lambda>(date, row). strftime_ymd date) rows"
  using assms
proof (induction rows arbitrary: points)
  case Nil
  then show ?case by simp
next
  case (Cons r rest)
  obtain date row where r: "r = (date, row)" by (cases r)
  from Cons.prems obtain p ps where ps: "points = p # ps"
    by (cases points) auto
  with Cons.prems r have "history_point date row = Inr p"
    and "map Inr ps = map (\<lambda>(date, row). history_point date row) rest"
    by auto
  with Cons.IH [of ps] ps r show ?case
    by (simp add: history_point_date)
qed

lemma str_nat_1: "n < 10 \<Longrightarrow> str_nat n = [digit_char n]"
  by (simp add: str_nat.simps)

lemma str_nat_2: "10 \<le> n \<Longrightarrow> n < 100 \<Longrightarrow> str_nat n = [digit_char (n div 10), digit_char (n mod 10)]"
  by (subst str_nat.simps) (simp add: str_nat_1)

lemma str_nat_4:
  assumes "1000 \<le> n" and "n < 10000"
  shows "str_nat n = [digit_char (n div 1000), digit_char (n div 100 mod 10),
                      digit_char (n div 10 mod 10), digit_char (n mod 10)]"
proof -
  have a: "str_nat n = str_nat (n div 10) @ [digit_char (n mod 10)]"
    using assms by (subst str_nat.simps) simp
  have h: "n div 10 div 10 = n div 100"
    by (simp add: div_mult2_eq [symmetric])
  have b: "str_nat (n div 10) = str_nat (n div 100) @ [digit_char (n div 10 mod 10)]"
    using assms by (subst str_nat.simps) (simp add: h)
  have "10 \<le> n div 100" and "n div 100 < 100"
    using assms by auto
  then have c: "str_nat (n div 100) = [digit_char (n div 100 div 10), digit_char (n div 100 mod 10)]"
    by (rule str_nat_2)
  have "n div 100 div 10 = n div 1000"
    by (simp add: div_mult2_eq [symmetric])
  with a b c show ?thesis by simp
qed

lemma digit_char_zero: "digit_char 0 = CHR ''0''"
  by code_simp

lemma zero_pad_2:
  "n < 100 \<Longrightarrow> zero_pad 2 n = [digit_char (n div 10), digit_char (n mod 10)]"
  by (cases "n < 10") (simp_all add: zero_pad_def str_nat_1 str_nat_2 digit_char_zero)

lemma zero_pad_4:
  "1000 \<le> n \<Longrightarrow> n < 10000 \<Longrightarrow>
   zero_pad 4 n = [digit_char (n div 1000), digit_char (n div 100 mod 10),
                   digit_char (n div 10 mod 10), digit_char (n mod 10)]"
  by (simp add: zero_pad_def str_nat_4)

lemma strftime_ymd_valid:
  assumes "valid_date d"
  shows "strftime_ymd d =
    [digit_char (year d div 1000), digit_char (year d div 100 mod 10),
     digit_char (year d div 10 mod 10), digit_char (year d mod 10), CHR ''-'',
     digit_char (month d div 10), digit_char (month d mod 10), CHR ''-'',
     digit_char (day d div 10), digit_char (day d mod 10)]"
  using assms by (simp add: strftime_ymd_def valid_date_def zero_pad_2 zero_pad_4)

lemma is_digit_digit_char: "n < 10 \<Longrightarrow> is_digit (digit_char n)"
  by (simp add: is_digit_def digit_char_def)

lemma is_ymd_strftime:
  assumes "valid_date d"
  shows "is_ymd (strftime_ymd d)"
proof -
  from assms have "year d div 1000 < 10" and "month d div 10 < 10" and "day d div 10 < 10"
    by (auto simp: valid_date_def)
  with assms show ?thesis
    by (simp add: strftime_ymd_valid is_ymd_def is_digit_digit_char)
qed

lemma digit_char_less: "a < 10 \<Longrightarrow> b < 10 \<Longrightarrow> digit_char a < digit_char b \<longleftrightarrow> a < b"
  by (simp add: digit_char_def less_char_def)

lemma digit_char_eq: "a < 10 \<Longrightarrow> b < 10 \<Longrightarrow> digit_char a = digit_char b \<longleftrightarrow> a = b"
proof -
  assume "a < 10" and "b < 10"
  then have "of_char (digit_char a) = a + 48" and "of_char (digit_char b) = b + 48"
    by (simp_all add: digit_char_def)
  then show ?thesis
    by (metis add_right_cancel)
qed

lemma lex_pair:
  fixes qa ra qb rb :: nat
  assumes "ra < 10" and "rb < 10"
  shows "10 * qa + ra < 10 * qb + rb \<longleftrightarrow> qa < qb \<or> (qa = qb \<and> ra < rb)"
  using assms by arith

lemma split_order:
  fixes a b :: nat
  shows "a < b \<longleftrightarrow> a div 10 < b div 10 \<or> (a div 10 = b div 10 \<and> a mod 10 < b mod 10)"
proof -
  have "10 * (a div 10) + a mod 10 < 10 * (b div 10) + b mod 10 \<longleftrightarrow>
        a div 10 < b div 10 \<or> (a div 10 = b div 10 \<and> a mod 10 < b mod 10)"
    by (rule lex_pair) simp_all
  then show ?thesis by simp
qed

lemma split_same:
  fixes a b :: nat
  shows "a = b \<longleftrightarrow> a div 10 = b div 10 \<and> a mod 10 = b mod 10"
  by (metis div_mult_mod_eq)

lemma two_digits_less:
  assumes "a < 100" and "b < 100"
  shows "[digit_char (a div 10), digit_char (a mod 10)] @ s <
         [digit_char (b div 10), digit_char (b mod 10)] @ t \<longleftrightarrow>
         a < b \<or> (a = b \<and> s < t)"
proof -
  from assms have bounds: "a div 10 < 10" "b div 10 < 10" "a mod 10 < 10" "b mod 10 < 10"
    by simp_all
  have "[digit_char (a div 10), digit_char (a mod 10)] @ s <
         [digit_char (b div 10), digit_char (b mod 10)] @ t \<longleftrightarrow>
        a div 10 < b div 10 \<or> (a div 10 = b div 10 \<and>
          (a mod 10 < b mod 10 \<or> (a mod 10 = b mod 10 \<and> s < t)))"
    using bounds by (simp add: digit_char_less digit_char_eq)
  also have "\<dots> \<longleftrightarrow> a < b \<or> (a = b \<and> s < t)"
    using split_order [of a b] split_same [of a b] by blast
  finally show ?thesis .
qed


lemma two_digits_less':
  assumes "a < 100" and "b < 100"
  shows "two_digits a @ s < two_digits b @ t \<longleftrightarrow> a < b \<or> (a = b \<and> s < t)"
  unfolding two_digits_def using assms by (rule two_digits_less)

lemma two_digits_less_last:
  assumes "a < 100" and "b < 100"
  shows "two_digits a < two_digits b \<longleftrightarrow> a < b"
  using two_digits_less' [OF assms, of "[]" "[]"] by simp

lemma mod_100_div_10:
  fixes n :: nat
  shows "n mod 100 div 10 = n div 10 mod 10"
proof -
  have "n mod (10 * 10) = 10 * (n div 10 mod 10) + n mod 10"
    by (rule mod_mult2_eq)
  then have "n mod 100 = 10 * (n div 10 mod 10) + n mod 10"
    by simp
  then show ?thesis
    by simp
qed

lemma mod_100_mod_10:
  fixes n :: nat
  shows "n mod 100 mod 10 = n mod 10"
  by (simp add: mod_mod_cancel)

lemma div_100_div_10:
  fixes n :: nat
  shows "n div 100 div 10 = n div 1000"
  by (simp add: div_mult2_eq [symmetric])

lemma lex_pair_100:
  fixes qa ra qb rb :: nat
  assumes "ra < 100" and "rb < 100"
  shows "100 * qa + ra < 100 * qb + rb \<longleftrightarrow> qa < qb \<or> (qa = qb \<and> ra < rb)"
  using assms by arith

lemma split_order_100:
  fixes a b :: nat
  shows "a < b \<longleftrightarrow> a div 100 < b div 100 \<or> (a div 100 = b div 100 \<and> a mod 100 < b mod 100)"
proof -
  have "100 * (a div 100) + a mod 100 < 100 * (b div 100) + b mod 100 \<longleftrightarrow>
        a div 100 < b div 100 \<or> (a div 100 = b div 100 \<and> a mod 100 < b mod 100)"
    by (rule lex_pair_100) simp_all
  then show ?thesis by simp
qed


lemma strftime_ymd_two_digits:
  assumes "valid_date d"
  shows "strftime_ymd d =
    two_digits (year d div 100) @ two_digits (year d mod 100) @ ''-'' @
    two_digits (month d) @ ''-'' @ two_digits (day d) @ []"
  using assms
  by (simp add: strftime_ymd_valid two_digits_def div_100_div_10 mod_100_div_10 mod_100_mod_10)

lemma strftime_ymd_less:
  assumes "valid_date a" and "valid_date b" and "date_less a b"
  shows "strftime_ymd a < strftime_ymd b"
proof -
  from assms(1,2) have "year a < 100 * 100" and "year b < 100 * 100"
    by (simp_all add: valid_date_def)
  then have centuries: "year a div 100 < 100" "year b div 100 < 100"
    by (simp_all only: less_mult_imp_div_less)
  from assms(1,2) have "month a < 100" "month b < 100" "day a < 100" "day b < 100"
    "year a mod 100 < 100" "year b mod 100 < 100"
    by (simp_all add: valid_date_def)
  note bounds = centuries this
  have "strftime_ymd a < strftime_ymd b \<longleftrightarrow>
      year a div 100 < year b div 100 \<or> (year a div 100 = year b div 100 \<and>
        (year a mod 100 < year b mod 100 \<or> (year a mod 100 = year b mod 100 \<and>
          (month a < month b \<or> (month a = month b \<and> day a < day b)))))"
    using bounds
    by (simp add: strftime_ymd_two_digits [OF assms(1)] strftime_ymd_two_digits [OF assms(2)]
        two_digits_less' two_digits_less_last)
  moreover have "year a div 100 < year b div 100 \<or> (year a div 100 = year b div 100 \<and>
        (year a mod 100 < year b mod 100 \<or> (year a mod 100 = year b mod 100 \<and>
          (month a < month b \<or> (month a = month b \<and> day a < day b)))))"
    using assms(3) split_order_100 [of "year a" "year b"]
    by (auto simp: date_less_def)
  ultimately show ?thesis by simp
qed

lemma strftime_ymd_sorted:
  assumes "\<forall>d \<in> set ds. valid_date d" and "sorted_wrt date_less ds"
  shows "sorted_wrt (<) (map strftime_ymd ds)"
proof -
  have "sorted_wrt (\<lambda>a b. strftime_ymd a < strftime_ymd b) ds"
    using assms(2)
  proof (rule sorted_wrt_mono_rel [rotated])
    fix a b
    assume "a \<in> set ds" and "b \<in> set ds" and "date_less a b"
    with assms(1) show "strftime_ymd a < strftime_ymd b"
      by (simp add: strftime_ymd_less)
  qed
  then show ?thesis
    by (simp add: sorted_wrt_map)
qed

lemma get_stock_history_success:
  assumes "period \<in> set valid_periods"
    and "ticker_history e symbol period = Inr rows"
    and "history_loop rows [] = Inr points"
  shows "get_stock_history e symbol period =
           (json_dumps (PList points), [TickerHistory symbol period])"
  using assms
  by (simp add: get_stock_history_def get_stock_history_try_def yf_history_def)

subsection \<open>C8: the history points\<close>

text \<open>
  Claim C8 says that for every provider series the dates of the returned points are
  strictly increasing. When the provider returns the 3rd of January before the 2nd, so
  does \<^verbatim>\<open>get_stock_history\<close>.
\<close>

theorem history_points_unsorted:
  "ticker_history (canned_env PNone [] descending_history) ''AAPL'' ''5d'' = Inr descending_history \<and>
   map fst descending_history =
     [\<lparr>year = 2024, month = 1, day = 3\<rparr>, \<lparr>year = 2024, month = 1, day = 2\<rparr>] \<and>
   fst (get_stock_history (canned_env PNone [] descending_history) ''AAPL'' ''5d'') =
     json_dumps (PList [sample_point ''2024-01-03'', sample_point ''2024-01-02'']) \<and>
   map date_field [sample_point ''2024-01-03'', sample_point ''2024-01-02''] =
     [''2024-01-03'', ''2024-01-02''] \<and>
   \<not> sorted_wrt (<) (map date_field [sample_point ''2024-01-03'', sample_point ''2024-01-02''])"
proof -
  have v: "''5d'' \<in> set valid_periods"
    by (simp add: valid_periods_def)
  have t: "ticker_history (canned_env PNone [] descending_history) ''AAPL'' ''5d'' =
      Inr descending_history"
    by (simp add: canned_env_def)
  have l: "history_loop descending_history [] =
      Inr [sample_point ''2024-01-03'', sample_point ''2024-01-02'']"
    by code_simp
  have d: "map date_field [sample_point ''2024-01-03'', sample_point ''2024-01-02''] =
     [''2024-01-03'', ''2024-01-02'']"
    by (simp add: date_field_def sample_point_def)
  have "\<not> sorted_wrt (<) [''2024-01-03'', ''2024-01-02'' :: string]"
    by simp
  with d t get_stock_history_success [OF v t l] show ?thesis
    by (simp add: descending_history_def)
qed

text \<open>
  Claim C8, as the code has it: the points are the projections of the provider's rows,
  one per row and in the provider's order; each date with a four-digit year is rendered
  as \<^verbatim>\<open>YYYY-MM-DD\<close>; and the dates of the points are strictly increasing whenever the
  provider's dates are.
\<close>

theorem history_points_in_provider_order:
  assumes "period \<in> set valid_periods"
    and "ticker_history e symbol period = Inr rows"
    and "history_loop rows [] = Inr points"
  shows "fst (get_stock_history e symbol period) = json_dumps (PList points) \<and>
    map Inr points = map (\<lambda>(date, row). history_point date row) rows \<and>
    map date_field points = map (\<lambda>(date, row). strftime_ymd date) rows \<and>
    ((\<forall>date \<in> set (map fst rows). valid_date date) \<longrightarrow>
       (\<forall>point \<in> set points. is_ymd (date_field point)) \<and>
       (sorted_wrt date_less (map fst rows) \<longrightarrow> sorted_wrt (<) (map date_field points)))"
proof -
  have out: "fst (get_stock_history e symbol period) = json_dumps (PList points)"
    using get_stock_history_success [OF assms] by simp
  have pts: "map Inr points = map (\<lambda>(date, row). history_point date row) rows"
    using history_loop_points [OF assms(3)] by simp
  then have "map date_field points = map (\<lambda>(date, row). strftime_ymd date) rows"
    by (rule history_points_dates)
  then have dates: "map date_field points = map strftime_ymd (map fst rows)"
    by (simp add: case_prod_beta comp_def)
  have "(\<forall>point \<in> set points. is_ymd (date_field point)) \<and>
       (sorted_wrt date_less (map fst rows) \<longrightarrow> sorted_wrt (<) (map date_field points))"
    if valid: "\<forall>date \<in> set (map fst rows). valid_date date"
  proof
    have "\<forall>s \<in> set (map strftime_ymd (map fst rows)). is_ymd s"
      using valid by (auto simp: is_ymd_strftime)
    then have "\<forall>s \<in> set (map date_field points). is_ymd s"
      by (simp only: dates)
    then show "\<forall>point \<in> set points. is_ymd (date_field point)"
      by simp
    show "sorted_wrt date_less (map fst rows) \<longrightarrow> sorted_wrt (<) (map date_field points)"
    proof
      assume "sorted_wrt date_less (map fst rows)"
      with valid have "sorted_wrt (<) (map strftime_ymd (map fst rows))"
        by (rule strftime_ymd_sorted)
      then show "sorted_wrt (<) (map date_field points)"
        by (simp only: dates)
    qed
  qed
  with out pts dates show ?thesis
    by (simp add: case_prod_beta comp_def)
qed

theorem history_points_in_provider_order_witness:
  "''5d'' \<in> set valid_periods \<and>
   ticker_history (canned_env PNone [] ascending_history) ''AAPL'' ''5d'' = Inr ascending_history \<and>
   history_loop ascending_history [] =
     Inr [sample_point ''2024-01-02'', sample_point ''2024-01-03''] \<and>
   map fst ascending_history =
     [\<lparr>year = 2024, month = 1, day = 2\<rparr>, \<lparr>year = 2024, month = 1, day = 3\<rparr>] \<and>
   valid_date \<lparr>year = 2024, month = 1, day = 2\<rparr> \<and>
   valid_date \<lparr>year = 2024, month = 1, day = 3\<rparr> \<and>
   sorted_wrt date_less (map fst ascending_history) \<and>
   fst (get_stock_history (canned_env PNone [] ascending_history) ''AAPL'' ''5d'') =
     json_dumps (PList [sample_point ''2024-01-02'', sample_point ''2024-01-03'']) \<and>
   map date_field [sample_point ''2024-01-02'', sample_point ''2024-01-03''] =
     [''2024-01-02'', ''2024-01-03''] \<and>
   sorted_wrt (<) (map date_field [sample_point ''2024-01-02'', sample_point ''2024-01-03'']) \<and>
   is_ymd (date_field (sample_point ''2024-01-02''))"
proof -
  have v: "''5d'' \<in> set valid_periods"
    by (simp add: valid_periods_def)
  have t: "ticker_history (canned_env PNone [] ascending_history) ''AAPL'' ''5d'' =
      Inr ascending_history"
    by (simp add: canned_env_def)
  have l: "history_loop ascending_history [] =
      Inr [sample_point ''2024-01-02'', sample_point ''2024-01-03'']"
    by code_simp
  have d: "\<forall>date \<in> set (map fst ascending_history). valid_date date"
    by (simp add: ascending_history_def valid_date_def)
  have s: "sorted_wrt date_less (map fst ascending_history)"
    by (simp add: ascending_history_def date_less_def)
  have f: "map date_field [sample_point ''2024-01-02'', sample_point ''2024-01-03''] =
     [''2024-01-02'', ''2024-01-03'']"
    by (simp add: date_field_def sample_point_def)
  have y: "is_ymd ''2024-01-02''"
    by code_simp
  have m: "map fst ascending_history =
     [\<lparr>year = 2024, month = 1, day = 2\<rparr>, \<lparr>year = 2024, month = 1, day = 3\<rparr>]"
    by (simp add: ascending_history_def)
  have a: "valid_date \<lparr>year = 2024, month = 1, day = 2\<rparr>"
    "valid_date \<lparr>year = 2024, month = 1, day = 3\<rparr>"
    by (simp_all add: valid_date_def)
  show ?thesis
    using history_points_in_provider_order [OF v t l] v t l d s f y m a
    by simp
qed

end
